theory Spec2Isabelle
  imports Main "HOL-Library.Word"
begin

section \<open>Machine integers of the Go sources\<close>

text \<open>
  The wallet is written in Go.  Go's \<open>int\<close> is a signed integer whose arithmetic wraps
  around; on the 64-bit platforms the wallet is built for it has 64 bits.  It is modelled
  as \<open>64 word\<close>: \<open>+\<close> wraps, \<open>sint\<close> reads the signed value, and the conversion
  \<open>uint64(x)\<close> keeps the bits, so that the unsigned order \<open><\<close> of words is the order
  of the converted value.  \<open>len(xs)\<close> is \<open>of_nat (length xs)\<close>.
\<close>

type_synonym go_int = "64 word"
type_synonym uint64 = "64 word"
type_synonym byte = "8 word"

section \<open>Transaction size estimation (wallet/txsizes/size.go)\<close>

text \<open>
  Modelled from the spec: the spec's \<open>varint(n)\<close> is \<open>wire.VarIntSerializeSize\<close> of the
  node's wire package, which the wallet imports and which is not among the wallet's
  sources.  It is the size of the compact integer encoding: one byte below the
  discriminant \<open>0xfd\<close>, then 3, 5 or 9 bytes for values of 16, 32 and 64 bits.  The
  table of \<open>TestEstimateSerializeSize\<close> fixes the step from 1 to 3 bytes at \<open>0xfd\<close>.
\<close>

definition VarIntSerializeSize :: "uint64 \<Rightarrow> go_int" where
  "VarIntSerializeSize val =
     (if val < 0xfd then 1
      else if val \<le> 0xffff then 3
      else if val \<le> 0xffffffff then 5
      else 9)"

definition RedeemP2PKSigScriptSize :: go_int where
  "RedeemP2PKSigScriptSize = 1 + 73"

definition RedeemP2PKHSigScriptSize :: go_int where
  "RedeemP2PKHSigScriptSize = 1 + 73 + 1 + 33"

definition P2PKHPkScriptSize :: go_int where
  "P2PKHPkScriptSize = 1 + 1 + 1 + 20 + 1 + 1"

text \<open>
  A transaction output (\<open>wire.TxOut\<close>, also a type of the node's wire package).  Its
  method \<open>SerializeSize\<close> is not among the wallet's sources either; every function below
  that calls it takes it as the parameter \<open>ser\<close>.
\<close>

record TxOut =
  Value :: "64 word"
  CoinType :: "8 word"
  Version :: "16 word"
  PkScript :: "byte list"

definition sumOutputSerializeSizes :: "(TxOut \<Rightarrow> go_int) \<Rightarrow> TxOut list \<Rightarrow> go_int" where
  "sumOutputSerializeSizes ser outputs =
     fold (\<lambda>txOut serializeSize. serializeSize + ser txOut) outputs 0"

definition EstimateInputSize :: "go_int \<Rightarrow> go_int" where
  "EstimateInputSize scriptSize =
     32 + 4 + 1 + 8 + 4 + 4 + VarIntSerializeSize scriptSize + scriptSize + 4"

definition EstimateOutputSize :: "go_int \<Rightarrow> go_int" where
  "EstimateOutputSize scriptSize =
     8 + 1 + 2 + VarIntSerializeSize scriptSize + scriptSize"

definition EstimateOutputSizeSKA :: "go_int \<Rightarrow> go_int" where
  "EstimateOutputSizeSKA scriptSize =
     1 + 1 + 16 + 2 + VarIntSerializeSize scriptSize + scriptSize"

definition EstimateInputPrefixSize :: go_int where
  "EstimateInputPrefixSize = 32 + 4 + 1 + 4"

definition EstimateInputWitnessSize :: "go_int \<Rightarrow> go_int" where
  "EstimateInputWitnessSize scriptSize =
     8 + 1 + 4 + 4 + VarIntSerializeSize scriptSize + scriptSize"

definition EstimateInputWitnessSizeSKA :: "go_int \<Rightarrow> go_int" where
  "EstimateInputWitnessSizeSKA scriptSize =
     8 + 1 + 16 + 4 + 4 + VarIntSerializeSize scriptSize + scriptSize"

text \<open>
  \<open>estimateSerializeSizeInternal\<close>: the three \<open>for\<close> loops are folds over the slices,
  each adding to its accumulator; the change output is counted when
  \<open>changeScriptSize != 0\<close>.
\<close>

definition estimateSerializeSizeInternal ::
    "(TxOut \<Rightarrow> go_int) \<Rightarrow> go_int list \<Rightarrow> TxOut list \<Rightarrow> go_int \<Rightarrow> bool \<Rightarrow> go_int" where
  "estimateSerializeSizeInternal ser scriptSizes txOuts changeScriptSize isSKA =
     (let inputCount = (of_nat (length scriptSizes) :: go_int);
          outputCount0 = (of_nat (length txOuts) :: go_int);
          changeSize =
            (if changeScriptSize \<noteq> 0
             then (if isSKA then EstimateOutputSizeSKA changeScriptSize
                   else EstimateOutputSize changeScriptSize)
             else 0);
          outputCount = (if changeScriptSize \<noteq> 0 then outputCount0 + 1 else outputCount0);
          baseSize = 12 + VarIntSerializeSize inputCount + VarIntSerializeSize inputCount
                        + VarIntSerializeSize outputCount;
          prefixInputsSize =
            fold (\<lambda>_ acc. acc + EstimateInputPrefixSize) scriptSizes 0;
          witnessInputsSize =
            fold (\<lambda>scriptSize acc.
                    if isSKA then acc + EstimateInputWitnessSizeSKA scriptSize
                    else acc + EstimateInputWitnessSize scriptSize) scriptSizes 0;
          outputsSize = sumOutputSerializeSizes ser txOuts + changeSize
      in baseSize + prefixInputsSize + witnessInputsSize + outputsSize)"

definition EstimateSerializeSize ::
    "(TxOut \<Rightarrow> go_int) \<Rightarrow> go_int list \<Rightarrow> TxOut list \<Rightarrow> go_int \<Rightarrow> go_int" where
  "EstimateSerializeSize ser scriptSizes txOuts changeScriptSize =
     estimateSerializeSizeInternal ser scriptSizes txOuts changeScriptSize False"

definition EstimateSerializeSizeSKA ::
    "(TxOut \<Rightarrow> go_int) \<Rightarrow> go_int list \<Rightarrow> TxOut list \<Rightarrow> go_int \<Rightarrow> go_int" where
  "EstimateSerializeSizeSKA ser scriptSizes txOuts changeScriptSize =
     estimateSerializeSizeInternal ser scriptSizes txOuts changeScriptSize True"

text \<open>
  \<open>EstimateSerializeSizeFromScriptSizes\<close>: here the change output is counted when
  \<open>changeScriptSize > 0\<close>, a signed comparison.
\<close>

definition EstimateSerializeSizeFromScriptSizes ::
    "go_int list \<Rightarrow> go_int list \<Rightarrow> go_int \<Rightarrow> go_int" where
  "EstimateSerializeSizeFromScriptSizes inputSizes outputSizes changeScriptSize =
     (let txInsSize = fold (\<lambda>inputSize acc. acc + EstimateInputSize inputSize) inputSizes 0;
          txOutsSize = fold (\<lambda>outputSize acc. acc + EstimateOutputSize outputSize) outputSizes 0;
          inputCount = (of_nat (length inputSizes) :: go_int);
          outputCount0 = (of_nat (length outputSizes) :: go_int);
          changeSize = (if 0 <s changeScriptSize then EstimateOutputSize changeScriptSize else 0);
          outputCount = (if 0 <s changeScriptSize then outputCount0 + 1 else outputCount0)
      in 12 + (2 * VarIntSerializeSize inputCount) + VarIntSerializeSize outputCount
            + txInsSize + txOutsSize + changeSize)"

text \<open>
  Modelled from the spec: the serialized size of a primary-asset output, which is
  \<open>wire.TxOut.SerializeSize\<close> of the node's wire package for such an output: 8-byte
  amount, 1-byte coin-type tag, 2-byte script version, the compact integer of the script
  length and the script (the constant \<open>P2PKHOutputSize\<close> of size.go lists the same
  fields).  It is used as the concrete \<open>ser\<close> of the worked examples.
\<close>

definition SerializeSize_VAR :: "TxOut \<Rightarrow> go_int" where
  "SerializeSize_VAR txOut =
     8 + 1 + 2 + VarIntSerializeSize (of_nat (length (PkScript txOut)))
       + of_nat (length (PkScript txOut))"

section \<open>Consolidation addresses (wallet/udb/consolidation.go)\<close>

text \<open>
  Errors are built by \<open>errors.E(op, kind, ...)\<close>; the model keeps the operation and the
  kind.  Calling a method of a nil bucket is a run-time panic in Go, not an error value;
  it is the outcome \<open>NilBucketPanic\<close>.
\<close>

datatype kind = Invalid | IO

datatype failure = E string kind | NilBucketPanic

type_synonym bytes = "byte list"

type_synonym bucket = "bytes \<rightharpoonup> bytes"

text \<open>
  Modelled from the spec: the storage engine behind \<open>walletdb.ReadTx\<close> and
  \<open>walletdb.ReadWriteTx\<close> is an external collaborator ("key-value bucket keyed by UTF-8
  account name").  A transaction is the top-level buckets it sees: \<open>ReadBucket\<close> and
  \<open>ReadWriteBucket\<close> give nil (\<open>None\<close>) for a bucket that was never created, \<open>Get\<close>
  gives nil for a key without a record, \<open>Put\<close> stores the value under the key and
  \<open>Delete\<close> removes the key (no error when it is absent).  Whether the engine refuses a
  write is its own matter: \<open>put_refused\<close> and \<open>delete_refused\<close> stand for it, and a
  refused write leaves the bucket as it was.
\<close>

record walletdb_tx =
  buckets :: "bytes \<rightharpoonup> bucket"
  put_refused :: "bytes \<Rightarrow> bytes \<Rightarrow> bool"
  delete_refused :: "bytes \<Rightarrow> bool"

definition bytes_of_string :: "string \<Rightarrow> bytes" where
  "bytes_of_string s = map (\<lambda>c. word_of_nat (of_char c)) s"

definition accountConsolidationBucketKey :: bytes where
  "accountConsolidationBucketKey = bytes_of_string ''accountconsolidation''"

definition ReadBucket :: "walletdb_tx \<Rightarrow> bytes \<Rightarrow> bucket option" where
  "ReadBucket dbtx key = buckets dbtx key"

definition ReadWriteBucket :: "walletdb_tx \<Rightarrow> bytes \<Rightarrow> bucket option" where
  "ReadWriteBucket dbtx key = buckets dbtx key"

definition Put :: "walletdb_tx \<Rightarrow> bytes \<Rightarrow> bucket \<Rightarrow> bytes \<Rightarrow> bytes \<Rightarrow> unit + walletdb_tx" where
  "Put dbtx bkey b key val =
     (if put_refused dbtx key val then Inl ()
      else Inr (dbtx\<lparr>buckets := (buckets dbtx)(bkey \<mapsto> b(key \<mapsto> val))\<rparr>))"

definition Delete :: "walletdb_tx \<Rightarrow> bytes \<Rightarrow> bucket \<Rightarrow> bytes \<Rightarrow> unit + walletdb_tx" where
  "Delete dbtx bkey b key =
     (if delete_refused dbtx key then Inl ()
      else Inr (dbtx\<lparr>buckets := (buckets dbtx)(bkey \<mapsto> b(key := None))\<rparr>))"

text \<open>Go's \<open>copy(dst, src)\<close>: the first \<open>min (len dst) (len src)\<close> bytes of \<open>dst\<close> are overwritten.\<close>

definition copy_bytes :: "bytes \<Rightarrow> bytes \<Rightarrow> bytes" where
  "copy_bytes dst src = take (length dst) src @ drop (length src) dst"

text \<open>
  \<open>SetAccountConsolidationAddr\<close> returns an error or nil and writes to the store: the
  model returns the error (\<open>None\<close> for nil) and the store afterwards.
\<close>

definition SetAccountConsolidationAddr ::
    "walletdb_tx \<Rightarrow> string \<Rightarrow> bytes \<Rightarrow> failure option \<times> walletdb_tx" where
  "SetAccountConsolidationAddr dbtx accountName hash160 =
     (if length hash160 \<noteq> 20
        then (Some (E ''udb.SetAccountConsolidationAddr'' Invalid), dbtx)
      else if accountName = []
        then (Some (E ''udb.SetAccountConsolidationAddr'' Invalid), dbtx)
      else (case ReadWriteBucket dbtx accountConsolidationBucketKey of
              None \<Rightarrow> (Some NilBucketPanic, dbtx)
            | Some b \<Rightarrow>
                (case Put dbtx accountConsolidationBucketKey b (bytes_of_string accountName) hash160 of
                   Inl _ \<Rightarrow> (Some (E ''udb.SetAccountConsolidationAddr'' IO), dbtx)
                 | Inr dbtx' \<Rightarrow> (None, dbtx'))))"

text \<open>
  \<open>GetAccountConsolidationAddr\<close> reads only (its transaction is a \<open>walletdb.ReadTx\<close>).
  It returns \<open>(nil, err)\<close>, \<open>(nil, nil)\<close> or \<open>(result, nil)\<close>: \<open>Inl err\<close>,
  \<open>Inr None\<close> and \<open>Inr (Some result)\<close>.
\<close>

definition GetAccountConsolidationAddr ::
    "walletdb_tx \<Rightarrow> string \<Rightarrow> failure + bytes option" where
  "GetAccountConsolidationAddr dbtx accountName =
     (if accountName = []
        then Inl (E ''udb.GetAccountConsolidationAddr'' Invalid)
      else (case ReadBucket dbtx accountConsolidationBucketKey of
              None \<Rightarrow> Inr None
            | Some b \<Rightarrow>
                (case b (bytes_of_string accountName) of
                   None \<Rightarrow> Inr None
                 | Some hash160 \<Rightarrow>
                     if length hash160 \<noteq> 20
                       then Inl (E ''udb.GetAccountConsolidationAddr'' IO)
                     else Inr (Some (copy_bytes (replicate 20 0) hash160)))))"

definition ClearAccountConsolidationAddr ::
    "walletdb_tx \<Rightarrow> string \<Rightarrow> failure option \<times> walletdb_tx" where
  "ClearAccountConsolidationAddr dbtx accountName =
     (if accountName = []
        then (Some (E ''udb.ClearAccountConsolidationAddr'' Invalid), dbtx)
      else (case ReadWriteBucket dbtx accountConsolidationBucketKey of
              None \<Rightarrow> (Some NilBucketPanic, dbtx)
            | Some b \<Rightarrow>
                (case Delete dbtx accountConsolidationBucketKey b (bytes_of_string accountName) of
                   Inl _ \<Rightarrow> (Some (E ''udb.ClearAccountConsolidationAddr'' IO), dbtx)
                 | Inr dbtx' \<Rightarrow> (None, dbtx'))))"

text \<open>The kind of a returned error, for an error return (\<open>Some\<close>) and for a result (\<open>Inl\<close>).\<close>

fun has_kind :: "kind \<Rightarrow> failure \<Rightarrow> bool" where
  "has_kind k (E _ k') = (k = k')"
| "has_kind k NilBucketPanic = False"

definition returns_kind :: "kind \<Rightarrow> failure option \<Rightarrow> bool" where
  "returns_kind k r = (case r of None \<Rightarrow> False | Some e \<Rightarrow> has_kind k e)"

definition result_kind :: "kind \<Rightarrow> failure + 'a \<Rightarrow> bool" where
  "result_kind k r = (case r of Inl e \<Rightarrow> has_kind k e | Inr _ \<Rightarrow> False)"

text \<open>A store with the consolidation bucket created and empty, whose engine accepts every write.\<close>

definition fresh_store :: walletdb_tx where
  "fresh_store =
     \<lparr>buckets = [accountConsolidationBucketKey \<mapsto> Map.empty],
      put_refused = (\<lambda>_ _. False), delete_refused = (\<lambda>_. False)\<rparr>"

definition hash20 :: bytes where
  "hash20 = [1, 2, 3, 4, 5, 6, 7, 8, 9, 10, 11, 12, 13, 14, 15, 16, 17, 18, 19, 20]"

text \<open>A store where the bucket was never created, and one holding a 19-byte record.\<close>

definition no_bucket_store :: walletdb_tx where
  "no_bucket_store =
     \<lparr>buckets = Map.empty, put_refused = (\<lambda>_ _. False), delete_refused = (\<lambda>_. False)\<rparr>"

definition corrupted_store :: walletdb_tx where
  "corrupted_store =
     \<lparr>buckets = [accountConsolidationBucketKey \<mapsto> [bytes_of_string ''default'' \<mapsto> butlast hash20]],
      put_refused = (\<lambda>_ _. False), delete_refused = (\<lambda>_. False)\<rparr>"

section \<open>Stake-fee distribution transactions (SSFee)\<close>

text \<open>
  The transaction types of the node's wire package, with the fields the wallet's tests
  fill in (\<open>wire.OutPoint\<close>, \<open>wire.TxIn\<close>, \<open>wire.MsgTx\<close>; \<open>wire.TxOut\<close> is above).
\<close>

record OutPoint =
  Hash :: "byte list"
  Index :: "32 word"
  Tree :: "8 word"

record TxIn =
  PreviousOutPoint :: OutPoint
  SignatureScript :: "byte list"
  ValueIn :: "64 word"

record MsgTx =
  TxVersion :: "16 word"
  TxIns :: "TxIn list"
  TxOuts :: "TxOut list"

datatype SSFeeTag = MF | SF

definition MaxPrevOutIndex :: "32 word" where
  "MaxPrevOutIndex = 0xffffffff"

definition zeroHash :: "byte list" where
  "zeroHash = replicate 32 0"

text \<open>
  Modelled from the spec: the classifier itself (\<open>isSSFeeTx\<close>, \<open>getSSFeeType\<close> and
  \<open>isSSFeeMinerTx\<close> of wallet/udb, over \<open>stake.IsSSFee\<close> and \<open>stake.CheckSSFee\<close> of the
  node) is not among the sources; only its tests are.  The definitions below follow the
  structural rule of the spec, "all must hold":
  \<^item> version \<open>\<ge> 3\<close>;
  \<^item> exactly one input, either a null input (zero hash, maximum index) or a reference to
    a real previous output with an empty signature script;
  \<^item> the final output has value 0 and the script \<open>0x6a 0x06\<close>, a 2-byte tag \<open>MF\<close> or
    \<open>SF\<close>, and a 4-byte height;
  \<^item> between 1 and 4 outputs before the marker, all of one coin type.
  The result is "none" on failure, otherwise the tag; the companion predicate is true
  only when the tag is \<open>MF\<close>.
\<close>

definition isNullOutPoint :: "OutPoint \<Rightarrow> bool" where
  "isNullOutPoint prevOut = (Hash prevOut = zeroHash \<and> Index prevOut = MaxPrevOutIndex)"

definition ssfeeInputOk :: "TxIn \<Rightarrow> bool" where
  "ssfeeInputOk txIn =
     (isNullOutPoint (PreviousOutPoint txIn)
      \<or> (\<not> isNullOutPoint (PreviousOutPoint txIn) \<and> SignatureScript txIn = []))"

fun parseSSFeeMarker :: "byte list \<Rightarrow> (SSFeeTag \<times> byte list) option" where
  "parseSSFeeMarker [opc, push, t1, t2, h0, h1, h2, h3] =
     (if opc = 0x6a \<and> push = 0x06
      then (if t1 = 0x4D \<and> t2 = 0x46 then Some (MF, [h0, h1, h2, h3])
            else if t1 = 0x53 \<and> t2 = 0x46 then Some (SF, [h0, h1, h2, h3])
            else None)
      else None)"
| "parseSSFeeMarker _ = None"

definition markerTag :: "MsgTx \<Rightarrow> SSFeeTag option" where
  "markerTag tx =
     (case TxOuts tx of
        [] \<Rightarrow> None
      | _ # _ \<Rightarrow> map_option fst (parseSSFeeMarker (PkScript (last (TxOuts tx)))))"

definition rewardOutputsOk :: "TxOut list \<Rightarrow> bool" where
  "rewardOutputsOk rewards =
     (case rewards of
        [] \<Rightarrow> False
      | r # rs \<Rightarrow> length rewards \<le> 4 \<and> list_all (\<lambda>out. CoinType out = CoinType r) rs)"

definition isSSFeeTx :: "MsgTx \<Rightarrow> bool" where
  "isSSFeeTx tx =
     (3 \<le> TxVersion tx
      \<and> (case TxIns tx of [txIn] \<Rightarrow> ssfeeInputOk txIn | _ \<Rightarrow> False)
      \<and> TxOuts tx \<noteq> []
      \<and> Value (last (TxOuts tx)) = 0
      \<and> markerTag tx \<noteq> None
      \<and> rewardOutputsOk (butlast (TxOuts tx)))"

definition getSSFeeType :: "MsgTx \<Rightarrow> SSFeeTag option" where
  "getSSFeeType tx = (if isSSFeeTx tx then markerTag tx else None)"

definition isSSFeeMinerTx :: "MsgTx \<Rightarrow> bool" where
  "isSSFeeMinerTx tx = (getSSFeeType tx = Some MF)"

text \<open>
  The test helper \<open>createMockSSFeeTx\<close> of wallet/udb/ssfee\_test.go: version 3, one null
  input with an empty signature script, \<open>numOutputs\<close> reward outputs with a 25-byte dummy
  script, and the marker output with the tag \<open>MF\<close> when \<open>markerType == "MF"\<close> and \<open>SF\<close>
  otherwise.
\<close>

definition createMockSSFeeTx :: "8 word \<Rightarrow> nat \<Rightarrow> 64 word \<Rightarrow> string \<Rightarrow> MsgTx" where
  "createMockSSFeeTx ct numOutputs amount markerType =
     (let txIn = \<lparr>PreviousOutPoint = \<lparr>Hash = zeroHash, Index = MaxPrevOutIndex, Tree = 0\<rparr>,
                  SignatureScript = [], ValueIn = 0\<rparr>;
          rewards = replicate numOutputs
                      \<lparr>Value = amount, CoinType = ct, Version = 0, PkScript = replicate 25 0\<rparr>;
          marker = (if markerType = ''MF'' then [0x4D, 0x46] else [0x53, 0x46]);
          opReturnScript = [0x6a, 0x06] @ marker @ [0x00, 0x00, 0x00, 0x00]
      in \<lparr>TxVersion = 3, TxIns = [txIn],
          TxOuts = rewards @ [\<lparr>Value = 0, CoinType = ct, Version = 0, PkScript = opReturnScript\<rparr>]\<rparr>)"

text \<open>The "Regular transaction" of \<open>TestIsSSFeeMinerTx\<close>: version 1, one real input, one output.\<close>

definition regularTx :: MsgTx where
  "regularTx =
     \<lparr>TxVersion = 1,
      TxIns = [\<lparr>PreviousOutPoint = \<lparr>Hash = 1 # replicate 31 0, Index = 0, Tree = 0\<rparr>,
                SignatureScript = [], ValueIn = 0\<rparr>],
      TxOuts = [\<lparr>Value = 1000, CoinType = 0, Version = 0, PkScript = []\<rparr>]\<rparr>"

section \<open>Properties of the size estimator\<close>

subsection \<open>Loops as sums, signed readings\<close>

lemma fold_add_word:
  "fold (\<lambda>x acc. acc + f x) xs (a :: go_int) = a + sum_list (map f xs)"
  by (induction xs arbitrary: a) (simp_all add: add.assoc)

lemma sum_list_add_const:
  "sum_list (map (\<lambda>x. f x + (k :: go_int)) xs) = sum_list (map f xs) + k * of_nat (length xs)"
  by (induction xs) (simp_all add: algebra_simps)

lemma sint_add_int:
  assumes "- (2 ^ 63) \<le> sint (a :: go_int) + d" and "sint a + d < 2 ^ 63"
  shows "sint (a + word_of_int d) = sint a + d"
proof -
  have "a + word_of_int d = word_of_int (sint a + d)" by simp
  then have "sint (a + word_of_int d) = signed_take_bit 63 (sint a + d)"
    by (simp only: sint_sbintrunc') simp
  also have "\<dots> = sint a + d"
    using assms by (simp add: signed_take_bit_int_eq_self)
  finally show ?thesis .
qed








subsection \<open>The total formula\<close>

text \<open>
  C1.  For every list of input script sizes, every list of outputs and every change script
  size \<open>c\<close> (0 for no change), \<open>EstimateSerializeSize\<close> returns 12 + varint(inputCount) +
  varint(inputCount) + varint(outputCount, one more when change is requested) + 41 bytes
  of prefix per input (32+4+1+4) + a witness of 8+1+4+4+varint(s)+s bytes per input of
  script size \<open>s\<close> + the serialize sizes of the outputs + the change output
  (8+1+2+varint(c)+c) when change is requested.  The sums are Go's \<open>int\<close> sums.
\<close>

theorem EstimateSerializeSize_total_formula:
  "EstimateSerializeSize ser scriptSizes txOuts c =
     12 + VarIntSerializeSize (of_nat (length scriptSizes))
        + VarIntSerializeSize (of_nat (length scriptSizes))
        + VarIntSerializeSize (of_nat (length txOuts) + (if c \<noteq> 0 then 1 else 0))
        + sum_list (map (\<lambda>_. 32 + 4 + 1 + 4) scriptSizes)
        + sum_list (map (\<lambda>s. 8 + 1 + 4 + 4 + VarIntSerializeSize s + s) scriptSizes)
        + sum_list (map ser txOuts)
        + (if c \<noteq> 0 then 8 + 1 + 2 + VarIntSerializeSize c + c else 0)"
  by (simp add: EstimateSerializeSize_def estimateSerializeSizeInternal_def Let_def
      sumOutputSerializeSizes_def fold_add_word EstimateInputPrefixSize_def
      EstimateInputWitnessSize_def EstimateOutputSize_def)

text \<open>
  C5.  One input with the worst-case P2PKH signature script (108 bytes), no outputs and
  no change: the estimate is 182 bytes, the first row of \<open>TestEstimateSerializeSize\<close>.
\<close>

theorem EstimateSerializeSize_baseline:
  "EstimateSerializeSize ser [RedeemP2PKHSigScriptSize] [] 0 = 182"
  by (simp add: EstimateSerializeSize_def estimateSerializeSizeInternal_def
      sumOutputSerializeSizes_def EstimateInputPrefixSize_def EstimateInputWitnessSize_def
      VarIntSerializeSize_def RedeemP2PKHSigScriptSize_def)

text \<open>
  Further rows of \<open>TestEstimateSerializeSize\<close> (1, 2, 3, 5, 6 and 11), with outputs of a
  25-byte P2PKH or a 23-byte P2SH script measured by \<open>SerializeSize_VAR\<close>: the model
  gives the sizes the test expects.
\<close>

lemma TestEstimateSerializeSize_rows:
  "EstimateSerializeSize SerializeSize_VAR [RedeemP2PKHSigScriptSize]
     [\<lparr>Value = 0, CoinType = 0, Version = 0, PkScript = replicate 25 0\<rparr>] 0 = 219"
  "EstimateSerializeSize SerializeSize_VAR [RedeemP2PKHSigScriptSize] [] P2PKHPkScriptSize = 219"
  "EstimateSerializeSize SerializeSize_VAR [RedeemP2PKHSigScriptSize]
     [\<lparr>Value = 0, CoinType = 0, Version = 0, PkScript = replicate 25 0\<rparr>] P2PKHPkScriptSize = 256"
  "EstimateSerializeSize SerializeSize_VAR [RedeemP2PKHSigScriptSize]
     [\<lparr>Value = 0, CoinType = 0, Version = 0, PkScript = replicate 23 0\<rparr>] P2PKHPkScriptSize = 254"
  "EstimateSerializeSize SerializeSize_VAR [RedeemP2PKHSigScriptSize, RedeemP2PKHSigScriptSize]
     [] 0 = 349"
  "EstimateSerializeSize SerializeSize_VAR [RedeemP2PKHSigScriptSize, RedeemP2PKHSigScriptSize]
     [\<lparr>Value = 0, CoinType = 0, Version = 0, PkScript = replicate 23 0\<rparr>] P2PKHPkScriptSize = 421"
  by (simp_all add: EstimateSerializeSize_def estimateSerializeSizeInternal_def
      sumOutputSerializeSizes_def SerializeSize_VAR_def EstimateInputPrefixSize_def
      EstimateInputWitnessSize_def EstimateOutputSize_def VarIntSerializeSize_def
      RedeemP2PKHSigScriptSize_def P2PKHPkScriptSize_def)

subsection \<open>The abstract-sizes overload\<close>

text \<open>
  The per-input size of the abstract overload lacks the one-byte \<open>SKAValueInLen\<close> that
  \<open>EstimateInputWitnessSize\<close> counts ("always present, 0 for VAR inputs"): for every
  script size it is one byte short of prefix plus witness.
\<close>

lemma EstimateInputSize_one_short:
  "EstimateInputSize s + 1 = EstimateInputPrefixSize + EstimateInputWitnessSize s"
  by (simp add: EstimateInputSize_def EstimateInputPrefixSize_def EstimateInputWitnessSize_def)

text \<open>
  C3.  The claim is that \<open>EstimateInputSize s\<close> equals \<open>EstimateInputPrefixSize\<close> plus
  \<open>EstimateInputWitnessSize s\<close>, so that both overloads return the same total.  At the
  worst-case P2PKH script size 108 the abstract per-input size is 166 and the concrete
  one 167; for one such input, no outputs and no change the totals are 181 and 182.
\<close>

theorem abstract_overload_one_byte_short:
  "EstimateInputSize 108 = 166
   \<and> EstimateInputPrefixSize + EstimateInputWitnessSize 108 = 167
   \<and> EstimateSerializeSizeFromScriptSizes [108] [] 0 = 181
   \<and> EstimateSerializeSize SerializeSize_VAR [108] [] 0 = 182"
  by (simp add: EstimateInputSize_def EstimateInputPrefixSize_def EstimateInputWitnessSize_def
      EstimateSerializeSizeFromScriptSizes_def EstimateSerializeSize_def
      estimateSerializeSizeInternal_def sumOutputSerializeSizes_def VarIntSerializeSize_def)

subsection \<open>Secondary-asset estimate against the primary-asset estimate\<close>

lemma EstimateSerializeSizeSKA_eq:
  "EstimateSerializeSizeSKA ser xs outs c =
     EstimateSerializeSize ser xs outs c + 16 * of_nat (length xs) + (if c \<noteq> 0 then 9 else 0)"
proof -
  have w: "EstimateInputWitnessSizeSKA = (\<lambda>s. EstimateInputWitnessSize s + 16)"
    by (rule ext) (simp add: EstimateInputWitnessSizeSKA_def EstimateInputWitnessSize_def)
  have o: "EstimateOutputSizeSKA c = EstimateOutputSize c + 9"
    by (simp add: EstimateOutputSizeSKA_def EstimateOutputSize_def)
  show ?thesis
    by (simp add: EstimateSerializeSizeSKA_def EstimateSerializeSize_def
        estimateSerializeSizeInternal_def Let_def fold_add_word w o sum_list_add_const)
qed

lemma EstimateSerializeSize_108_change_25:
  "EstimateSerializeSize SerializeSize_VAR [108] [] 25 = 219"
  by (simp add: EstimateSerializeSize_def estimateSerializeSizeInternal_def
      sumOutputSerializeSizes_def EstimateInputPrefixSize_def EstimateInputWitnessSize_def
      EstimateOutputSize_def VarIntSerializeSize_def)


text \<open>
  C6, as amended.  For identical arguments \<open>EstimateSerializeSizeSKA\<close> returns, in Go's
  wrap-around \<open>int\<close> arithmetic, the result of \<open>EstimateSerializeSize\<close> plus 16 per input
  plus 9 when change is requested (\<open>c \<noteq> 0\<close>).  When that sum does not exceed the largest
  \<open>int\<close>, the signed results differ by exactly those bytes and the secondary-asset
  estimate is not smaller than the primary-asset estimate.
\<close>

theorem EstimateSerializeSizeSKA_extra_bytes:
  "EstimateSerializeSizeSKA ser xs outs c =
      EstimateSerializeSize ser xs outs c + 16 * of_nat (length xs) + (if c \<noteq> 0 then 9 else 0)
   \<and> (sint (EstimateSerializeSize ser xs outs c) + 16 * int (length xs)
         + (if c \<noteq> 0 then 9 else 0) < 2 ^ 63 \<longrightarrow>
        sint (EstimateSerializeSizeSKA ser xs outs c) =
          sint (EstimateSerializeSize ser xs outs c) + 16 * int (length xs)
            + (if c \<noteq> 0 then 9 else 0)
        \<and> sint (EstimateSerializeSize ser xs outs c)
            \<le> sint (EstimateSerializeSizeSKA ser xs outs c))"
proof (intro conjI impI)
  let ?v = "EstimateSerializeSize ser xs outs c"
  let ?d = "16 * int (length xs) + (if c \<noteq> 0 then 9 else 0)"
  show eq: "EstimateSerializeSizeSKA ser xs outs c =
      ?v + 16 * of_nat (length xs) + (if c \<noteq> 0 then 9 else 0)"
    by (rule EstimateSerializeSizeSKA_eq)
  assume b: "sint ?v + 16 * int (length xs) + (if c \<noteq> 0 then 9 else 0) < 2 ^ 63"
  have nonneg: "0 \<le> ?d" by simp
  have "EstimateSerializeSizeSKA ser xs outs c = ?v + word_of_int ?d"
    by (simp add: eq)
  moreover have "sint (?v + word_of_int ?d) = sint ?v + ?d"
  proof (rule sint_add_int)
    have "- (2 ^ 63) \<le> sint ?v" using sint_ge [of ?v] by simp
    with nonneg show "- (2 ^ 63) \<le> sint ?v + ?d" by linarith
    from b show "sint ?v + ?d < 2 ^ 63" by (simp add: add.assoc)
  qed
  ultimately show s: "sint (EstimateSerializeSizeSKA ser xs outs c) =
      sint ?v + 16 * int (length xs) + (if c \<noteq> 0 then 9 else 0)"
    by (simp add: add.assoc)
  from s nonneg show "sint ?v \<le> sint (EstimateSerializeSizeSKA ser xs outs c)"
    by linarith
qed

theorem EstimateSerializeSizeSKA_extra_bytes_witness:
  "sint (EstimateSerializeSize SerializeSize_VAR [108] [] 25) + 16 * int (length [108 :: go_int])
      + 9 < 2 ^ 63
   \<and> sint (EstimateSerializeSize SerializeSize_VAR [108] [] 25) = 219
   \<and> sint (EstimateSerializeSizeSKA SerializeSize_VAR [108] [] 25) = 244"
  using EstimateSerializeSizeSKA_extra_bytes [of SerializeSize_VAR "[108]" "[]" 25]
  by (simp add: EstimateSerializeSize_108_change_25)

text \<open>
  The claim as stated ("never smaller") fails where the sum overflows: for one input of
  script size \<open>2^63 - 83\<close> the primary-asset estimate is the largest \<open>int\<close> and the
  secondary-asset estimate wraps around to a negative number.
\<close>

theorem EstimateSerializeSizeSKA_smaller_on_overflow:
  "sint (EstimateSerializeSizeSKA SerializeSize_VAR [0x7FFFFFFFFFFFFFAD] [] 0)
    < sint (EstimateSerializeSize SerializeSize_VAR [0x7FFFFFFFFFFFFFAD] [] 0)"
  by (simp add: EstimateSerializeSizeSKA_def EstimateSerializeSize_def
      estimateSerializeSizeInternal_def sumOutputSerializeSizes_def EstimateInputPrefixSize_def
      EstimateInputWitnessSize_def EstimateInputWitnessSizeSKA_def VarIntSerializeSize_def)

subsection \<open>When change is requested\<close>







section \<open>Properties of the consolidation store\<close>

lemma copy_bytes_same_length: "length src = length dst \<Longrightarrow> copy_bytes dst src = src"
  by (simp add: copy_bytes_def)

lemma Set_success_store:
  assumes "SetAccountConsolidationAddr dbtx accountName hash160 = (None, dbtx')"
  shows "length hash160 = 20 \<and> accountName \<noteq> [] \<and>
    (\<exists>b. buckets dbtx accountConsolidationBucketKey = Some b \<and>
         buckets dbtx' accountConsolidationBucketKey
           = Some (b(bytes_of_string accountName \<mapsto> hash160)))"
  using assms
  by (auto simp add: SetAccountConsolidationAddr_def ReadWriteBucket_def Put_def
      split: if_splits option.splits sum.splits)

lemma Get_after_Set:
  assumes "SetAccountConsolidationAddr dbtx accountName hash160 = (None, dbtx')"
  shows "GetAccountConsolidationAddr dbtx' accountName = Inr (Some hash160)"
proof -
  from Set_success_store [OF assms] obtain b where
    l: "length hash160 = 20" and n: "accountName \<noteq> []"
    and b': "buckets dbtx' accountConsolidationBucketKey
               = Some (b(bytes_of_string accountName \<mapsto> hash160))"
    by blast
  from l have "copy_bytes (replicate 20 0) hash160 = hash160"
    by (simp add: copy_bytes_same_length)
  with l n b' show ?thesis
    by (simp add: GetAccountConsolidationAddr_def ReadBucket_def)
qed

lemma Set_fresh_store:
  "SetAccountConsolidationAddr fresh_store ''default'' hash20 =
     (None, fresh_store\<lparr>buckets :=
        [accountConsolidationBucketKey \<mapsto> [bytes_of_string ''default'' \<mapsto> hash20]]\<rparr>)"
  by (simp add: SetAccountConsolidationAddr_def fresh_store_def hash20_def
      ReadWriteBucket_def Put_def)

text \<open>
  C2.  For every non-empty account name and every 20-byte hash, if
  \<open>SetAccountConsolidationAddr\<close> returns no error, then \<open>GetAccountConsolidationAddr\<close>
  for the same account on the resulting store returns that hash, 20 bytes long, and no
  error.
\<close>

theorem Get_returns_what_Set_stored:
  assumes "accountName \<noteq> []" and "length hash160 = 20"
    and "fst (SetAccountConsolidationAddr dbtx accountName hash160) = None"
  shows "GetAccountConsolidationAddr
           (snd (SetAccountConsolidationAddr dbtx accountName hash160)) accountName
           = Inr (Some hash160)
         \<and> length hash160 = 20"
proof -
  have "SetAccountConsolidationAddr dbtx accountName hash160
          = (None, snd (SetAccountConsolidationAddr dbtx accountName hash160))"
    using assms(3) by (simp add: prod_eq_iff)
  then show ?thesis using assms(2) by (simp add: Get_after_Set)
qed

theorem Get_returns_what_Set_stored_witness:
  "''default'' \<noteq> [] \<and> length hash20 = 20
   \<and> fst (SetAccountConsolidationAddr fresh_store ''default'' hash20) = None
   \<and> GetAccountConsolidationAddr
        (snd (SetAccountConsolidationAddr fresh_store ''default'' hash20)) ''default''
        = Inr (Some hash20)"
proof -
  have a: "''default'' \<noteq> []" by simp
  have l: "length hash20 = 20" by (simp add: hash20_def)
  have s: "fst (SetAccountConsolidationAddr fresh_store ''default'' hash20) = None"
    by (simp add: Set_fresh_store)
  from Get_returns_what_Set_stored [OF a l s] a l s show ?thesis by simp
qed

text \<open>
  C7.  For every non-empty account name \<open>GetAccountConsolidationAddr\<close> returns "no
  override" (nil) and no error when the bucket does not exist, and also when the bucket
  holds no record for the account; it returns an IO error if and only if a record is
  stored for the account whose length is not 20 bytes.
\<close>

theorem Get_no_override_or_IO:
  assumes "accountName \<noteq> []"
  shows "(ReadBucket dbtx accountConsolidationBucketKey = None
            \<longrightarrow> GetAccountConsolidationAddr dbtx accountName = Inr None)
       \<and> (\<forall>b. ReadBucket dbtx accountConsolidationBucketKey = Some b
                \<and> b (bytes_of_string accountName) = None
            \<longrightarrow> GetAccountConsolidationAddr dbtx accountName = Inr None)
       \<and> (result_kind IO (GetAccountConsolidationAddr dbtx accountName)
            \<longleftrightarrow> (\<exists>b hash160. ReadBucket dbtx accountConsolidationBucketKey = Some b
                   \<and> b (bytes_of_string accountName) = Some hash160
                   \<and> length hash160 \<noteq> 20))"
  using assms
  by (auto simp add: GetAccountConsolidationAddr_def result_kind_def split: option.splits)

theorem Get_no_override_or_IO_witness:
  "''default'' \<noteq> []
   \<and> ReadBucket no_bucket_store accountConsolidationBucketKey = None
   \<and> GetAccountConsolidationAddr no_bucket_store ''default'' = Inr None
   \<and> ReadBucket fresh_store accountConsolidationBucketKey = Some Map.empty
   \<and> GetAccountConsolidationAddr fresh_store ''default'' = Inr None
   \<and> result_kind IO (GetAccountConsolidationAddr corrupted_store ''default'')"
proof -
  have a: "''default'' \<noteq> []" by simp
  have r1: "ReadBucket no_bucket_store accountConsolidationBucketKey = None"
    by (simp add: ReadBucket_def no_bucket_store_def)
  have r2: "ReadBucket fresh_store accountConsolidationBucketKey = Some Map.empty"
    by (simp add: ReadBucket_def fresh_store_def)
  have r3: "ReadBucket corrupted_store accountConsolidationBucketKey
              = Some [bytes_of_string ''default'' \<mapsto> butlast hash20]"
    by (simp add: ReadBucket_def corrupted_store_def)
  have l: "length (butlast hash20) \<noteq> 20" by (simp add: hash20_def)
  from Get_no_override_or_IO [OF a, of no_bucket_store] r1
  have g1: "GetAccountConsolidationAddr no_bucket_store ''default'' = Inr None" by blast
  from Get_no_override_or_IO [OF a, of fresh_store] r2
  have g2: "GetAccountConsolidationAddr fresh_store ''default'' = Inr None" by simp
  from Get_no_override_or_IO [OF a, of corrupted_store] r3 l
  have g3: "result_kind IO (GetAccountConsolidationAddr corrupted_store ''default'')" by simp
  from a r1 r2 g1 g2 g3 show ?thesis by simp
qed

text \<open>
  C8.  \<open>SetAccountConsolidationAddr\<close> returns an Invalid error if and only if the account
  name is empty or the hash is not exactly 20 bytes; \<open>GetAccountConsolidationAddr\<close> and
  \<open>ClearAccountConsolidationAddr\<close> return an Invalid error if and only if the account
  name is empty; in every Invalid case the store is left unchanged (the read-only
  \<open>GetAccountConsolidationAddr\<close> has no store to return).
\<close>

theorem Invalid_iff_bad_arguments:
  "(returns_kind Invalid (fst (SetAccountConsolidationAddr dbtx accountName hash160))
      \<longleftrightarrow> accountName = [] \<or> length hash160 \<noteq> 20)
   \<and> (result_kind Invalid (GetAccountConsolidationAddr dbtx accountName)
      \<longleftrightarrow> accountName = [])
   \<and> (returns_kind Invalid (fst (ClearAccountConsolidationAddr dbtx accountName))
      \<longleftrightarrow> accountName = [])
   \<and> (returns_kind Invalid (fst (SetAccountConsolidationAddr dbtx accountName hash160))
      \<longrightarrow> snd (SetAccountConsolidationAddr dbtx accountName hash160) = dbtx)
   \<and> (returns_kind Invalid (fst (ClearAccountConsolidationAddr dbtx accountName))
      \<longrightarrow> snd (ClearAccountConsolidationAddr dbtx accountName) = dbtx)"
  by (auto simp add: SetAccountConsolidationAddr_def GetAccountConsolidationAddr_def
      ClearAccountConsolidationAddr_def returns_kind_def result_kind_def
      split: option.splits sum.splits)

theorem Invalid_iff_bad_arguments_witness:
  "returns_kind Invalid (fst (SetAccountConsolidationAddr fresh_store [] hash20))
   \<and> snd (SetAccountConsolidationAddr fresh_store [] hash20) = fresh_store
   \<and> returns_kind Invalid
        (fst (SetAccountConsolidationAddr fresh_store ''default'' (butlast hash20)))
   \<and> returns_kind Invalid (fst (ClearAccountConsolidationAddr fresh_store []))
   \<and> snd (ClearAccountConsolidationAddr fresh_store []) = fresh_store
   \<and> \<not> returns_kind Invalid (fst (SetAccountConsolidationAddr fresh_store ''default'' hash20))"
proof -
  have l: "length hash20 = 20" "length (butlast hash20) \<noteq> 20"
    by (simp_all add: hash20_def)
  from Invalid_iff_bad_arguments [of fresh_store "[]" hash20]
    Invalid_iff_bad_arguments [of fresh_store "''default''" "butlast hash20"]
    Invalid_iff_bad_arguments [of fresh_store "''default''" hash20] l
  show ?thesis by simp
qed

section \<open>Properties of the SSFee classifier\<close>

lemma mock_MF_is_SSFee:
  "isSSFeeTx (createMockSSFeeTx 1 3 1000 ''MF'')"
  "markerTag (createMockSSFeeTx 1 3 1000 ''MF'') = Some MF"
  by (simp_all add: isSSFeeTx_def createMockSSFeeTx_def markerTag_def ssfeeInputOk_def
      isNullOutPoint_def rewardOutputsOk_def numeral_3_eq_3)

lemma mock_SF_is_SSFee:
  "isSSFeeTx (createMockSSFeeTx 1 3 1000 ''SF'')"
  "markerTag (createMockSSFeeTx 1 3 1000 ''SF'') = Some SF"
  by (simp_all add: isSSFeeTx_def createMockSSFeeTx_def markerTag_def ssfeeInputOk_def
      isNullOutPoint_def rewardOutputsOk_def numeral_3_eq_3)

lemma regularTx_not_SSFee: "\<not> isSSFeeTx regularTx"
  by (simp add: isSSFeeTx_def regularTx_def)

text \<open>
  C4.  A transaction whose version is 2 is never classified as SSFee, whatever its
  input, marker output and reward outputs are.
\<close>

theorem version_2_not_SSFee:
  assumes "TxVersion tx = 2"
  shows "\<not> isSSFeeTx tx \<and> getSSFeeType tx = None"
  using assms by (simp add: isSSFeeTx_def getSSFeeType_def)

text \<open>
  The mock SSFee transaction of the tests has every other property of the shape: with
  version 3 it is classified, with version 2 it is not.
\<close>

theorem version_2_not_SSFee_witness:
  "TxVersion (createMockSSFeeTx 1 3 1000 ''SF''\<lparr>TxVersion := 2\<rparr>) = 2
   \<and> isSSFeeTx (createMockSSFeeTx 1 3 1000 ''SF'')
   \<and> \<not> isSSFeeTx (createMockSSFeeTx 1 3 1000 ''SF''\<lparr>TxVersion := 2\<rparr>)
   \<and> getSSFeeType (createMockSSFeeTx 1 3 1000 ''SF''\<lparr>TxVersion := 2\<rparr>) = None"
proof -
  have v: "TxVersion (createMockSSFeeTx 1 3 1000 ''SF''\<lparr>TxVersion := 2\<rparr>) = 2" by simp
  from version_2_not_SSFee [OF v] v mock_SF_is_SSFee(1) show ?thesis by simp
qed

text \<open>
  C9.  \<open>isSSFeeMinerTx\<close> is true if and only if the transaction is classified as SSFee
  and its marker tag is \<open>MF\<close>; an SSFee transaction with the tag \<open>SF\<close> and a transaction
  that is not SSFee both give false.
\<close>

theorem isSSFeeMinerTx_iff:
  "(isSSFeeMinerTx tx \<longleftrightarrow> isSSFeeTx tx \<and> markerTag tx = Some MF)
   \<and> (isSSFeeTx tx1 \<and> markerTag tx1 = Some SF \<longrightarrow> \<not> isSSFeeMinerTx tx1)
   \<and> (\<not> isSSFeeTx tx2 \<longrightarrow> \<not> isSSFeeMinerTx tx2)"
  by (simp add: isSSFeeMinerTx_def getSSFeeType_def)

theorem isSSFeeMinerTx_iff_witness:
  "isSSFeeMinerTx (createMockSSFeeTx 1 3 1000 ''MF'')
   \<and> isSSFeeTx (createMockSSFeeTx 1 3 1000 ''SF'')
   \<and> markerTag (createMockSSFeeTx 1 3 1000 ''SF'') = Some SF
   \<and> \<not> isSSFeeMinerTx (createMockSSFeeTx 1 3 1000 ''SF'')
   \<and> \<not> isSSFeeTx regularTx
   \<and> \<not> isSSFeeMinerTx regularTx"
  using isSSFeeMinerTx_iff [of "createMockSSFeeTx 1 3 1000 ''MF''"
      "createMockSSFeeTx 1 3 1000 ''SF''" regularTx]
    mock_MF_is_SSFee mock_SF_is_SSFee regularTx_not_SSFee
  by simp

end
